theory Spec2Isabelle
  imports Main
begin

section \<open>The tray application of \<open>src/electron/index.js\<close>\<close>

text \<open>
  The module wires a status-bar icon either to a menu of the user's deployments or to an
  onboarding window. Everything the module does to the outside world (the configuration
  store, the API client, the tray, the windows, the dialogs) is a call into a collaborator.
  The model records each such call as an \<open>effect\<close>; a handler is a function that returns
  the effects in the order in which the source performs them, together with the new value
  of the variables it assigns.
\<close>

subsection \<open>Data\<close>

text \<open>A deployment as the API returns it; the source reads \<open>uid\<close>, \<open>name\<close>, \<open>url\<close>
  and \<open>created\<close>.\<close>

record deployment =
  uid :: string
  name :: string
  url :: string
  created :: int

text \<open>The value stored under the configuration key \<open>now.user\<close>. A property that was
  never set reads as \<open>undefined\<close>, which is \<open>None\<close> here.\<close>

record user =
  token :: "string option"
  email :: "string option"

text \<open>The closures that the menu template stores under \<open>click\<close>, each with the values it
  captured: \<open>url\<close> for the first two, \<open>info.name\<close> and \<open>info.uid\<close> for the third.\<close>

datatype click =
    OpenInBrowser string
  | CopyURL string
  | DeleteClick "string option" "string option"

text \<open>The four shapes of object literal in the menu template (lines 120 to 188):
  \<open>{label, click}\<close>, \<open>{type: 'separator'}\<close>, \<open>{label, enabled: false}\<close> and
  \<open>{label, submenu}\<close>. The label of a submenu is \<open>info.name\<close>, which may be \<open>undefined\<close>.\<close>

datatype menu_item =
    Item string click
  | Separator
  | Disabled string
  | Submenu "string option" "menu_item list"

text \<open>An object held by the \<open>deployments\<close> array: a deployment of the API, or a menu
  template that the loop of line 113 has put in its place. An array slot holds a reference;
  the natural number is the identity of the object referred to.\<close>

datatype obj = Deployment deployment | Template menu_item

type_synonym cell = "nat \<times> obj"

text \<open>The calls into collaborators, one constructor per call that the source makes.\<close>

datatype effect =
    AutoUpdater
  | ConfigHas string
  | ConfigGet string
  | Api "string option"
  | GetDeployments
  | DeleteDeployment "string option"
  | ConsoleError
  | NewTray string
  | ShowError string
  | TrayOn string
  | TraySetContextMenu "menu_item list"
  | TraySetHighlightMode string
  | MenuItems
  | BuildFromTemplate
  | NewBrowserWindow
  | WinLoadURL string
  | WinOn string
  | WinFocus
  | WinHide
  | WinShow
  | AppOn string
  | ShellOpenExternal string
  | ClipboardWriteText string
  | Notify string string
  | ShowMessageBox string "string option"
  | Share "string option"
  | PreventDefault

subsection \<open>JavaScript conventions\<close>

text \<open>\<open>xs[i]\<close> is \<open>undefined\<close> out of range.\<close>

definition js_nth :: "'a list \<Rightarrow> nat \<Rightarrow> 'a option" where
  "js_nth xs i = (if i < length xs then Some (xs ! i) else None)"

text \<open>\<open>'...' + v\<close> appends the text \<open>undefined\<close> when \<open>v\<close> is \<open>undefined\<close>.\<close>

definition js_str :: "string option \<Rightarrow> string" where
  "js_str v = (case v of None \<Rightarrow> ''undefined'' | Some s \<Rightarrow> s)"

text \<open>A number is truthy when it is not zero.\<close>

definition truthy_num :: "int \<Rightarrow> bool" where
  "truthy_num n = (n \<noteq> 0)"

subsection \<open>\<open>fileDropped\<close> (lines 47 to 54)\<close>

definition multiple_files_message :: string where
  "multiple_files_message =
     ''It'' @ [CHR 0x27] @ ''s not yet possible to share multiple files/directories at once.''"

text \<open>\<open>share_ok\<close> says whether the promise of \<open>share\<close> is fulfilled; when it is rejected the
  \<open>await\<close> throws and \<open>event.preventDefault()\<close> is not reached.\<close>

definition fileDropped :: "bool \<Rightarrow> string list \<Rightarrow> effect list" where
  "fileDropped share_ok files =
     (if length files > 1 then [ShowError multiple_files_message]
      else Share (js_nth files 0) # (if share_ok then [PreventDefault] else []))"

fun is_share :: "effect \<Rightarrow> bool" where
  "is_share (Share f) = True"
| "is_share e = False"

fun is_show_error :: "effect \<Rightarrow> bool" where
  "is_show_error (ShowError m) = True"
| "is_show_error e = False"

subsection \<open>The onboarding closure: \<open>toggleHighlight\<close> and the click handler\<close>

text \<open>The variables of the \<open>else\<close> branch of line 195 that its handlers assign.\<close>

record onboarding =
  isHighlighted :: bool
  submenuShown :: bool
  forceClose :: bool

text \<open>Lines 199 to 202.\<close>

definition toggleHighlight :: "onboarding \<Rightarrow> effect list \<times> onboarding" where
  "toggleHighlight s =
     ([TraySetHighlightMode (if isHighlighted s then ''never'' else ''always'')],
      s\<lparr>isHighlighted := \<not> isHighlighted s\<rparr>)"

text \<open>\<open>k\<close> calls in sequence, the effects concatenated.\<close>

fun toggle_times :: "nat \<Rightarrow> onboarding \<Rightarrow> effect list \<times> onboarding" where
  "toggle_times 0 s = ([], s)"
| "toggle_times (Suc k) s =
     (let (t1, s1) = toggleHighlight s; (t2, s2) = toggle_times k s1 in (t1 @ t2, s2))"

text \<open>The handler of the tray's \<open>click\<close> event (lines 234 to 254). \<open>vis\<close> and \<open>foc\<close> are
  the answers of \<open>tutorial.isVisible()\<close> and \<open>tutorial.isFocused()\<close>.\<close>

definition tray_click :: "bool \<Rightarrow> bool \<Rightarrow> onboarding \<Rightarrow> effect list \<times> onboarding" where
  "tray_click vis foc s =
     (if vis \<and> \<not> foc then ([WinFocus], s)
      else
        let (t1, s1) = (if isHighlighted s then ([WinHide], s)
                        else ([WinShow], s\<lparr>isHighlighted := False\<rparr>));
            (t2, s2) = toggleHighlight s1
        in (t1 @ t2 @ [PreventDefault], s2))"

subsection \<open>The menu template of one deployment (lines 114 to 188)\<close>

text \<open>The properties that the loop reads from \<open>info\<close>. A menu template has none of them,
  so they read as \<open>undefined\<close> there.\<close>

definition info_name :: "obj \<Rightarrow> string option" where
  "info_name info = (case info of Deployment d \<Rightarrow> Some (name d) | Template m \<Rightarrow> None)"

definition info_url :: "obj \<Rightarrow> string option" where
  "info_url info = (case info of Deployment d \<Rightarrow> Some (url d) | Template m \<Rightarrow> None)"

definition info_uid :: "obj \<Rightarrow> string option" where
  "info_uid info = (case info of Deployment d \<Rightarrow> Some (uid d) | Template m \<Rightarrow> None)"

definition info_created :: "obj \<Rightarrow> int option" where
  "info_created info = (case info of Deployment d \<Rightarrow> Some (created d) | Template m \<Rightarrow> None)"

text \<open>Date formatting belongs to the \<open>moment\<close> package. A \<open>formatter\<close> stands for
  \<open>c, f \<mapsto> moment(new Date(parseInt(c, 10))).format(f)\<close> and is a parameter of the model.\<close>

type_synonym formatter = "int option \<Rightarrow> string \<Rightarrow> string"

definition menu_template :: "formatter \<Rightarrow> obj \<Rightarrow> menu_item" where
  "menu_template fmt info =
     (let created_format = fmt (info_created info);
          url_text = ''https://'' @ js_str (info_url info)
      in Submenu (info_name info)
           [Item ''Open in Browser...'' (OpenInBrowser url_text),
            Item ''Copy URL to Clipboard'' (CopyURL url_text),
            Separator,
            Item ''Delete...'' (DeleteClick (info_name info) (info_uid info)),
            Separator,
            Disabled (''Created on '' @ created_format ''MMMM Do YYYY'' @ '', ''
                      @ created_format ''h:mm a'')])"

subsection \<open>The loop over \<open>deployments\<close> (lines 113 to 189)\<close>

text \<open>\<open>Array.prototype.indexOf\<close> compares with \<open>===\<close>, which on objects is identity.
  \<open>None\<close> is the result \<open>-1\<close>.\<close>

fun indexOf :: "cell list \<Rightarrow> cell \<Rightarrow> nat option" where
  "indexOf [] x = None"
| "indexOf (y # ys) x = (if fst y = fst x then Some 0 else map_option Suc (indexOf ys x))"

text \<open>An object literal evaluates to a new object: its identity differs from that of
  every object the array holds.\<close>

definition new_ref :: "cell list \<Rightarrow> nat" where
  "new_ref arr = Suc (fold max (map fst arr) 0)"

text \<open>\<open>for (const deployment of deployments)\<close> walks the array by index and reads the
  length and the element anew at each step, so it sees the assignments of earlier steps.
  An assignment to the index \<open>-1\<close> would set a property and leave every element as it is.\<close>

function deployments_loop :: "formatter \<Rightarrow> nat \<Rightarrow> cell list \<Rightarrow> cell list" where
  "deployments_loop fmt i arr =
     (if i < length arr then
        let deployment = arr ! i;
            info = snd deployment;
            index = indexOf arr deployment;
            entry = (new_ref arr, Template (menu_template fmt info))
        in deployments_loop fmt (Suc i)
             (case index of Some j \<Rightarrow> arr[j := entry] | None \<Rightarrow> arr)
      else arr)"
  by pat_completeness auto
termination
  by (relation "measure (\<lambda>(fmt, i, arr). length arr - i)")
     (auto split: option.splits)

declare deployments_loop.simps [simp del]

definition build :: "formatter \<Rightarrow> cell list \<Rightarrow> cell list" where
  "build fmt arr = deployments_loop fmt 0 arr"

text \<open>The object that the loop puts in the place of the cell \<open>c\<close>.\<close>

definition built :: "formatter \<Rightarrow> cell \<Rightarrow> obj" where
  "built fmt c = Template (menu_template fmt (snd c))"

text \<open>The array that the API client hands over: one new object per deployment.\<close>

definition fetched_array :: "deployment list \<Rightarrow> cell list" where
  "fetched_array list = enumerate 0 (map Deployment list)"

text \<open>A catalog in general: an array whose objects are deployments, whatever their
  identities (two slots may hold the same object).\<close>

definition catalog_array :: "(nat \<times> deployment) list \<Rightarrow> cell list" where
  "catalog_array cat = map (\<lambda>(r, d). (r, Deployment d)) cat"

subsection \<open>The click closures of a deployment's submenu\<close>

text \<open>Line 125.\<close>

definition open_click :: "string \<Rightarrow> effect list" where
  "open_click url_text = [ShellOpenExternal url_text]"

text \<open>Lines 129 to 137.\<close>

definition copy_click :: "string \<Rightarrow> effect list" where
  "copy_click url_text =
     [ClipboardWriteText url_text,
      Notify ''Copied to clipboard''
        ''Your clipboard now contains the URL of your deployment.'']"

text \<open>The variables of the logged-in branch that a handler could reach: the array
  \<open>deployments\<close> and the template handed to \<open>tray.setContextMenu\<close>.\<close>

record logged_in =
  deployments :: "cell list"
  contextMenu :: "menu_item list"

text \<open>Lines 144 to 178. \<open>keepIt\<close> is the index that \<open>dialog.showMessageBox\<close> returns for
  the buttons \<open>['Yes', 'Cancel']\<close>; \<open>delete_ok\<close> says whether the promise of
  \<open>now.deleteDeployment\<close> is fulfilled. The handler assigns no variable.\<close>

definition delete_click ::
  "string option \<Rightarrow> string option \<Rightarrow> int \<Rightarrow> bool \<Rightarrow> logged_in \<Rightarrow> effect list \<times> logged_in" where
  "delete_click i_name i_uid keepIt delete_ok s =
     (ShowMessageBox (''Removal of '' @ js_str i_name) i_name #
      (if truthy_num keepIt then []
       else [Api None, DeleteDeployment i_uid] @
         (if delete_ok
          then [Notify (''Deleted '' @ js_str i_name)
                  ''The deployment has successfully been deleted.'']
          else [ConsoleError,
                ShowError (''Wasn'' @ [CHR 0x27] @ ''t not able to remove deployment ''
                           @ js_str i_name)])),
      s)"

text \<open>A click on a menu item runs the closure stored in it.\<close>

fun run_click :: "click \<Rightarrow> int \<Rightarrow> bool \<Rightarrow> logged_in \<Rightarrow> effect list \<times> logged_in" where
  "run_click (OpenInBrowser u) keepIt delete_ok s = (open_click u, s)"
| "run_click (CopyURL u) keepIt delete_ok s = (copy_click u, s)"
| "run_click (DeleteClick n i) keepIt delete_ok s = delete_click n i keepIt delete_ok s"

fun is_delete_call :: "effect \<Rightarrow> bool" where
  "is_delete_call (DeleteDeployment i) = True"
| "is_delete_call e = False"

fun is_api_call :: "effect \<Rightarrow> bool" where
  "is_api_call (Api t) = True"
| "is_api_call GetDeployments = True"
| "is_api_call (DeleteDeployment i) = True"
| "is_api_call e = False"

subsection \<open>Startup: the handler of \<open>ready\<close> (lines 76 to 280)\<close>

text \<open>What the collaborators answer during startup. \<open>now_user\<close> is the value under the key
  \<open>now.user\<close> (\<open>None\<close> when \<open>config.has\<close> is false); \<open>getDeployments\<close> is the list that
  the promise of \<open>now.getDeployments()\<close> is fulfilled with (\<open>None\<close> when it is rejected);
  \<open>new_tray\<close> is the error that \<open>new Tray\<close> throws (\<open>None\<close> when it returns);
  \<open>menuItems\<close> is the function of \<open>./menu\<close>.\<close>

record env =
  platform :: string
  now_user :: "user option"
  getDeployments :: "deployment list option"
  new_tray :: "string option"
  moment :: formatter
  menuItems :: "cell list \<Rightarrow> menu_item list"

text \<open>The variable \<open>deployments\<close> of the handler: unassigned, \<open>false\<close> or an array.
  Every array is truthy, the empty one too.\<close>

datatype deployments_var = Undefined | JFalse | Array "cell list"

fun truthy_var :: "deployments_var \<Rightarrow> bool" where
  "truthy_var (Array a) = True"
| "truthy_var v = False"

text \<open>\<open>loadDeployments\<close> (lines 56 to 68). Its only caller passes \<open>user.token\<close>, a string,
  and the function reads the property \<open>token\<close> of that string, which is \<open>undefined\<close>.\<close>

definition token_of_string :: "string \<Rightarrow> string option" where
  "token_of_string s = None"

definition loadDeployments :: "env \<Rightarrow> string \<Rightarrow> effect list \<times> deployments_var" where
  "loadDeployments e usr =
     (case getDeployments e of
        None \<Rightarrow> ([Api (token_of_string usr), GetDeployments, ConsoleError], JFalse)
      | Some list \<Rightarrow> ([Api (token_of_string usr), GetDeployments], Array (fetched_array list)))"

text \<open>Lines 85 to 97: the effects, the value of \<open>loggedIn\<close> (\<open>false\<close> since line 18
  unless line 95 runs) and the value of \<open>deployments\<close>. The test \<open>user.token\<close> of line 90
  holds when the token is a string that is not empty.\<close>

definition resolve :: "env \<Rightarrow> effect list \<times> bool \<times> deployments_var" where
  "resolve e =
     (case now_user e of
        None \<Rightarrow> ([ConfigHas ''now.user''], False, Undefined)
      | Some usr \<Rightarrow>
          let (t, deps) =
                (case token usr of
                   None \<Rightarrow> ([], Undefined)
                 | Some tok \<Rightarrow> if tok \<noteq> [] then loadDeployments e tok else ([], Undefined))
          in ([ConfigHas ''now.user'', ConfigGet ''now.user''] @ t,
              (if truthy_var deps then True else False), deps))"

text \<open>The two branches of line 110.\<close>

datatype TrayMode = Onboarding | LoggedIn

definition mode :: "env \<Rightarrow> TrayMode" where
  "mode e = (if fst (snd (resolve e)) then LoggedIn else Onboarding)"

text \<open>Lines 80 to 83.\<close>

definition check_updates :: "env \<Rightarrow> effect list" where
  "check_updates e = (if platform e \<noteq> ''linux'' then [AutoUpdater] else [])"

definition icon_path :: string where
  "icon_path = ''/icons/iconTemplate.png''"

text \<open>Lines 111 to 194. Iterating over a value that is no array throws, which ends the
  handler.\<close>

definition logged_in_branch :: "env \<Rightarrow> deployments_var \<Rightarrow> effect list" where
  "logged_in_branch e deps =
     (case deps of
        Array a \<Rightarrow>
          [TrayOn ''drop-files'', MenuItems, BuildFromTemplate,
           TraySetContextMenu (menuItems e (build (moment e) a))]
      | _ \<Rightarrow> [TrayOn ''drop-files''])"

text \<open>Lines 196 to 278, with \<open>onboarding()\<close> of lines 31 to 45. Line 43 loads
  \<open>'file://' + resolvePath('../app/pages/welcome.html')\<close>; as for the icon of line 105, the
  path is recorded as the source writes it, before \<open>resolvePath\<close> of the package
  \<open>app-root-path\<close> makes it absolute.\<close>

definition onboarding_branch :: "effect list" where
  "onboarding_branch =
     [TraySetHighlightMode ''never'', NewBrowserWindow,
      WinLoadURL (''file://'' @ ''../app/pages/welcome.html''), WinOn ''close'']
     @ map WinOn [''closed'', ''minimize'', ''restore'']
     @ [AppOn ''before-quit'', TrayOn ''click'', TrayOn ''right-click'']"

definition ready :: "env \<Rightarrow> effect list" where
  "ready e =
     (let (t, loggedIn, deps) = resolve e
      in check_updates e @ t @
         (case new_tray e of
            Some err \<Rightarrow> [NewTray icon_path, ShowError err]
          | None \<Rightarrow>
              NewTray icon_path #
              (if loggedIn then logged_in_branch e deps else onboarding_branch)))"

text \<open>The calls on the tray, and the calls that session resolution consists of.\<close>

fun tray_effect :: "effect \<Rightarrow> bool" where
  "tray_effect (NewTray p) = True"
| "tray_effect (TrayOn ev) = True"
| "tray_effect (TraySetContextMenu m) = True"
| "tray_effect (TraySetHighlightMode h) = True"
| "tray_effect e = False"

fun resolution_effect :: "effect \<Rightarrow> bool" where
  "resolution_effect (ConfigHas k) = True"
| "resolution_effect (ConfigGet k) = True"
| "resolution_effect (Api t) = True"
| "resolution_effect GetDeployments = True"
| "resolution_effect e = False"

text \<open>The calls that wire the logged-in menu.\<close>

fun logged_in_wiring :: "effect \<Rightarrow> bool" where
  "logged_in_wiring (TrayOn ev) = (ev = ''drop-files'')"
| "logged_in_wiring (TraySetContextMenu m) = True"
| "logged_in_wiring MenuItems = True"
| "logged_in_wiring BuildFromTemplate = True"
| "logged_in_wiring e = False"

section \<open>Properties\<close>

subsection \<open>Highlight toggling\<close>

lemma snd_toggleHighlight:
  "isHighlighted (snd (toggleHighlight s)) = (\<not> isHighlighted s)"
  by (simp add: toggleHighlight_def)

lemma toggle_times_Suc:
  "snd (toggle_times (Suc k) s) = snd (toggle_times k (snd (toggleHighlight s)))"
  by (simp add: split_def Let_def)

lemma toggle_times_highlight:
  "isHighlighted (snd (toggle_times k s)) = (odd k \<noteq> isHighlighted s)"
proof (induction k arbitrary: s)
  case 0
  show ?case by simp
next
  case (Suc k)
  have "isHighlighted (snd (toggle_times (Suc k) s))
        = (odd k \<noteq> isHighlighted (snd (toggleHighlight s)))"
    unfolding toggle_times_Suc by (rule Suc.IH)
  also have "\<dots> = (odd (Suc k) \<noteq> isHighlighted s)"
    unfolding snd_toggleHighlight by auto
  finally show ?case .
qed

text \<open>
  Claim C7. From any starting value of \<open>isHighlighted\<close> and for any \<open>k\<close>, after \<open>k\<close>
  calls of \<open>toggleHighlight\<close> the flag equals \<open>(k is odd) \<noteq> initial\<close>; in particular two
  calls restore the flag, and one call always changes it.
\<close>

theorem toggleHighlight_parity:
  "isHighlighted (snd (toggle_times k s)) = (odd k \<noteq> isHighlighted s)
   \<and> isHighlighted (snd (toggleHighlight (snd (toggleHighlight s)))) = isHighlighted s
   \<and> isHighlighted (snd (toggleHighlight s)) \<noteq> isHighlighted s"
  by (simp add: toggle_times_highlight snd_toggleHighlight)

subsection \<open>The loop replaces every slot by the template of its object\<close>

text \<open>At step \<open>i\<close> the slots before \<open>i\<close> hold new objects, so \<open>indexOf\<close> finds the
  current object at \<open>i\<close> itself, also when a later slot holds the same object.\<close>

lemma indexOf_first:
  "i < length a \<Longrightarrow> (\<forall>j<i. fst (a ! j) \<noteq> fst (a ! i)) \<Longrightarrow> indexOf a (a ! i) = Some i"
proof (induction a arbitrary: i)
  case Nil
  then show ?case by simp
next
  case (Cons y ys)
  show ?case
  proof (cases i)
    case 0
    then show ?thesis by simp
  next
    case (Suc n)
    from Cons.prems Suc have n: "n < length ys" by simp
    from Cons.prems(2) Suc have y: "fst y \<noteq> fst (ys ! n)" by auto
    have "\<forall>j<n. fst (ys ! j) \<noteq> fst (ys ! n)"
    proof (intro allI impI)
      fix j assume "j < n"
      then have "Suc j < i" using Suc by simp
      with Cons.prems(2) have "fst ((y # ys) ! Suc j) \<noteq> fst ((y # ys) ! i)" by blast
      then show "fst (ys ! j) \<noteq> fst (ys ! n)" using Suc by simp
    qed
    with Cons.IH n have "indexOf ys (ys ! n) = Some n" by blast
    with y Suc show ?thesis by simp
  qed
qed

lemma fold_max_ge: "m \<le> fold max xs (m::nat)"
  by (induction xs arbitrary: m) (auto intro: order_trans [OF max.cobounded2])

lemma fold_max_mem: "x \<in> set xs \<Longrightarrow> x \<le> fold max xs (m::nat)"
proof (induction xs arbitrary: m)
  case Nil
  then show ?case by simp
next
  case (Cons y ys)
  show ?case
  proof (cases "x = y")
    case True
    have "max y m \<le> fold max ys (max y m)" by (rule fold_max_ge)
    with True show ?thesis by simp
  next
    case False
    with Cons.prems have "x \<in> set ys" by simp
    from Cons.IH [OF this] show ?thesis by simp
  qed
qed

lemma new_ref_fresh: "k < length a \<Longrightarrow> fst (a ! k) < new_ref a"
proof -
  assume "k < length a"
  then have "fst (a ! k) \<in> set (map fst a)" by (metis length_map nth_map nth_mem)
  from fold_max_mem [OF this] show ?thesis by (simp add: new_ref_def less_Suc_eq_le)
qed

lemma deployments_loop_step:
  assumes i: "i < length a"
    and d: "\<forall>j<i. fst (a ! j) \<noteq> fst (a ! i)"
  shows "deployments_loop fmt i a =
           deployments_loop fmt (Suc i) (a[i := (new_ref a, built fmt (a ! i))])"
proof -
  from indexOf_first [OF i d] have "indexOf a (a ! i) = Some i" .
  with i show ?thesis
    by (subst deployments_loop.simps) (simp add: Let_def built_def)
qed

lemma deployments_loop_objs:
  "i \<le> length a \<Longrightarrow> (\<forall>j<i. \<forall>k<length a. i \<le> k \<longrightarrow> fst (a ! j) \<noteq> fst (a ! k)) \<Longrightarrow>
     map snd (deployments_loop fmt i a) = map snd (take i a) @ map (built fmt) (drop i a)"
proof (induction "length a - i" arbitrary: i a)
  case 0
  then have "i = length a" by simp
  then show ?case by (subst deployments_loop.simps) simp
next
  case (Suc n)
  then have i: "i < length a" by simp
  let ?a = "a[i := (new_ref a, built fmt (a ! i))]"
  from Suc.prems(2) i have d: "\<forall>j<i. fst (a ! j) \<noteq> fst (a ! i)" by blast
  have n: "n = length ?a - Suc i" using Suc.hyps(2) by simp
  have le: "Suc i \<le> length ?a" using i by simp
  have inv: "\<forall>j<Suc i. \<forall>k<length ?a. Suc i \<le> k \<longrightarrow> fst (?a ! j) \<noteq> fst (?a ! k)"
  proof (intro allI impI)
    fix j k assume j: "j < Suc i" and k: "k < length ?a" and ik: "Suc i \<le> k"
    from k have k': "k < length a" by simp
    show "fst (?a ! j) \<noteq> fst (?a ! k)"
    proof (cases "j = i")
      case True
      from new_ref_fresh [OF k'] have "fst (a ! k) \<noteq> new_ref a" by simp
      with True i ik show ?thesis by simp
    next
      case False
      with j have ji: "j < i" by simp
      with Suc.prems(2) k' ik have "fst (a ! j) \<noteq> fst (a ! k)" by simp
      with ji ik show ?thesis by simp
    qed
  qed
  have "map snd (deployments_loop fmt i a) = map snd (deployments_loop fmt (Suc i) ?a)"
    by (simp add: deployments_loop_step [OF i d])
  also have "\<dots> = map snd (take (Suc i) ?a) @ map (built fmt) (drop (Suc i) ?a)"
    by (rule Suc.hyps(1) [OF n le inv])
  also have "map snd (take (Suc i) ?a) = map snd (take i a) @ [built fmt (a ! i)]"
    using i by (simp add: take_Suc_conv_app_nth)
  also have "drop (Suc i) ?a = drop (Suc i) a" by simp
  also have "(map snd (take i a) @ [built fmt (a ! i)]) @ map (built fmt) (drop (Suc i) a)
             = map snd (take i a) @ map (built fmt) (drop i a)"
    using i by (simp add: Cons_nth_drop_Suc [symmetric])
  finally show ?case .
qed

lemma build_objs: "map snd (build fmt a) = map (built fmt) a"
  using deployments_loop_objs [of 0 a fmt] by (simp add: build_def)

lemma build_length: "length (build fmt a) = length a"
  using arg_cong [OF build_objs, of length fmt a] by simp

lemma build_nth: "i < length a \<Longrightarrow> snd (build fmt a ! i) = built fmt (a ! i)"
proof -
  assume i: "i < length a"
  then have "snd (build fmt a ! i) = map snd (build fmt a) ! i"
    by (simp add: build_length)
  also have "\<dots> = built fmt (a ! i)" using i by (simp add: build_objs)
  finally show ?thesis .
qed

lemma built_deployment:
  "built fmt (r, Deployment d) =
     Template (Submenu (Some (name d))
       [Item ''Open in Browser...'' (OpenInBrowser (''https://'' @ url d)),
        Item ''Copy URL to Clipboard'' (CopyURL (''https://'' @ url d)),
        Separator,
        Item ''Delete...'' (DeleteClick (Some (name d)) (Some (uid d))),
        Separator,
        Disabled (''Created on '' @ fmt (Some (created d)) ''MMMM Do YYYY'' @ '', ''
                  @ fmt (Some (created d)) ''h:mm a'')])"
  by (simp add: built_def menu_template_def info_name_def info_url_def info_uid_def
      info_created_def js_str_def Let_def)

text \<open>
  Claim C4. For a catalog of \<open>N\<close> deployments (\<open>N = 0\<close> included) the array after the loop
  has \<open>N\<close> slots; slot \<open>i\<close> holds the submenu built from deployment \<open>i\<close> of the input,
  labelled with its name, whose children are exactly six, in this order: the action
  \<open>Open in Browser...\<close> (its click opens \<open>https://\<close> followed by the deployment's url), the
  action \<open>Copy URL to Clipboard\<close>, a separator, the action \<open>Delete...\<close>, a separator, and
  the disabled label \<open>Created on ...\<close>.
\<close>

theorem build_submenus:
  "length (build fmt (catalog_array cat)) = length cat
   \<and> build fmt (catalog_array []) = []
   \<and> (i < length cat \<longrightarrow>
        snd (build fmt (catalog_array cat) ! i) =
          Template (Submenu (Some (name (snd (cat ! i))))
            [Item ''Open in Browser...'' (OpenInBrowser (''https://'' @ url (snd (cat ! i)))),
             Item ''Copy URL to Clipboard'' (CopyURL (''https://'' @ url (snd (cat ! i)))),
             Separator,
             Item ''Delete...''
               (DeleteClick (Some (name (snd (cat ! i)))) (Some (uid (snd (cat ! i))))),
             Separator,
             Disabled (''Created on '' @ fmt (Some (created (snd (cat ! i)))) ''MMMM Do YYYY''
                       @ '', '' @ fmt (Some (created (snd (cat ! i)))) ''h:mm a'')]))
   \<and> fst (run_click (OpenInBrowser u) keepIt ok s) = [ShellOpenExternal u]"
proof -
  have len: "length (build fmt (catalog_array cat)) = length cat"
    by (simp add: build_length catalog_array_def)
  have nil: "build fmt (catalog_array []) = []"
    using build_length [of fmt "[]"] by (simp add: catalog_array_def)
  have nth: "snd (build fmt (catalog_array cat) ! i) =
               built fmt (fst (cat ! i), Deployment (snd (cat ! i)))" if "i < length cat"
    using that by (simp add: build_nth catalog_array_def split_def)
  show ?thesis
    using len nil nth by (simp add: built_deployment open_click_def)
qed

theorem build_submenus_witness:
  "length (build (\<lambda>c f. f) (catalog_array
      [(0, \<lparr>uid = ''1'', name = ''proj'', url = ''proj.example.com'', created = 1000\<rparr>),
       (1, \<lparr>uid = ''2'', name = ''site'', url = ''site.example.com'', created = 2000\<rparr>)])) = 2
   \<and> snd (build (\<lambda>c f. f) (catalog_array
      [(0, \<lparr>uid = ''1'', name = ''proj'', url = ''proj.example.com'', created = 1000\<rparr>),
       (1, \<lparr>uid = ''2'', name = ''site'', url = ''site.example.com'', created = 2000\<rparr>)]) ! 0) =
       Template (Submenu (Some ''proj'')
         [Item ''Open in Browser...'' (OpenInBrowser ''https://proj.example.com''),
          Item ''Copy URL to Clipboard'' (CopyURL ''https://proj.example.com''),
          Separator,
          Item ''Delete...'' (DeleteClick (Some ''proj'') (Some ''1'')),
          Separator,
          Disabled ''Created on MMMM Do YYYY, h:mm a''])
   \<and> snd (build (\<lambda>c f. f) (catalog_array
      [(0, \<lparr>uid = ''1'', name = ''proj'', url = ''proj.example.com'', created = 1000\<rparr>),
       (1, \<lparr>uid = ''2'', name = ''site'', url = ''site.example.com'', created = 2000\<rparr>)]) ! 1) =
       Template (Submenu (Some ''site'')
         [Item ''Open in Browser...'' (OpenInBrowser ''https://site.example.com''),
          Item ''Copy URL to Clipboard'' (CopyURL ''https://site.example.com''),
          Separator,
          Item ''Delete...'' (DeleteClick (Some ''site'') (Some ''2'')),
          Separator,
          Disabled ''Created on MMMM Do YYYY, h:mm a''])"
  using build_submenus [of "\<lambda>c f. f"
      "[(0, \<lparr>uid = ''1'', name = ''proj'', url = ''proj.example.com'', created = 1000\<rparr>),
        (1, \<lparr>uid = ''2'', name = ''site'', url = ''site.example.com'', created = 2000\<rparr>)]" 0]
    build_submenus [of "\<lambda>c f. f"
      "[(0, \<lparr>uid = ''1'', name = ''proj'', url = ''proj.example.com'', created = 1000\<rparr>),
        (1, \<lparr>uid = ''2'', name = ''site'', url = ''site.example.com'', created = 2000\<rparr>)]" 1]
  by simp

subsection \<open>The build works in place\<close>

lemma built_template:
  "built fmt (r, Template m) =
     Template (Submenu None
       [Item ''Open in Browser...'' (OpenInBrowser ''https://undefined''),
        Item ''Copy URL to Clipboard'' (CopyURL ''https://undefined''),
        Separator,
        Item ''Delete...'' (DeleteClick None None),
        Separator,
        Disabled (''Created on '' @ fmt None ''MMMM Do YYYY'' @ '', '' @ fmt None ''h:mm a'')])"
  by (simp add: built_def menu_template_def info_name_def info_url_def info_uid_def
      info_created_def js_str_def Let_def)

text \<open>
  Claim C6, as stated, fails. The loop assigns to the slots of the array it is given: after
  a build over a catalog of one deployment the array holds a menu template where the
  deployment was, and a second build over that same array reads \<open>name\<close>, \<open>url\<close>, \<open>uid\<close>
  and \<open>created\<close> from the template, finds them \<open>undefined\<close> and yields another tree.
\<close>

theorem build_overwrites_catalog:
  "map snd (build (\<lambda>c f. f)
      [(0, Deployment \<lparr>uid = ''1'', name = ''proj'', url = ''proj.example.com'', created = 1000\<rparr>)])
     = [Template (Submenu (Some ''proj'')
         [Item ''Open in Browser...'' (OpenInBrowser ''https://proj.example.com''),
          Item ''Copy URL to Clipboard'' (CopyURL ''https://proj.example.com''),
          Separator,
          Item ''Delete...'' (DeleteClick (Some ''proj'') (Some ''1'')),
          Separator,
          Disabled ''Created on MMMM Do YYYY, h:mm a''])]
   \<and> map snd (build (\<lambda>c f. f)
      [(0, Deployment \<lparr>uid = ''1'', name = ''proj'', url = ''proj.example.com'', created = 1000\<rparr>)])
     \<noteq> map snd
      [(0, Deployment \<lparr>uid = ''1'', name = ''proj'', url = ''proj.example.com'', created = 1000\<rparr>)]
   \<and> map snd (build (\<lambda>c f. f) (build (\<lambda>c f. f)
      [(0, Deployment \<lparr>uid = ''1'', name = ''proj'', url = ''proj.example.com'', created = 1000\<rparr>)]))
     \<noteq> map snd (build (\<lambda>c f. f)
      [(0, Deployment \<lparr>uid = ''1'', name = ''proj'', url = ''proj.example.com'', created = 1000\<rparr>)])"
proof -
  let ?d = "\<lparr>uid = ''1'', name = ''proj'', url = ''proj.example.com'', created = 1000\<rparr>"
  let ?f = "\<lambda>(c::int option) (f::string). f"
  have one: "map snd (build ?f [(0, Deployment ?d)]) = [built ?f (0, Deployment ?d)]"
    by (simp add: build_objs)
  have two: "map snd (build ?f (build ?f [(0, Deployment ?d)]))
               = map (built ?f) (build ?f [(0, Deployment ?d)])"
    by (simp add: build_objs)
  obtain c where c: "build ?f [(0, Deployment ?d)] = [c]"
    using build_length [of ?f "[(0, Deployment ?d)]"]
    by (cases "build ?f [(0, Deployment ?d)]") auto
  with one have "snd c = built ?f (0, Deployment ?d)" by simp
  then have "built ?f c = built ?f (fst c, Template (menu_template ?f (Deployment ?d)))"
    by (simp add: built_def)
  with two c have three: "map snd (build ?f (build ?f [(0, Deployment ?d)]))
       = [built ?f (fst c, Template (menu_template ?f (Deployment ?d)))]" by simp
  show ?thesis
    unfolding three one by (simp add: built_deployment built_template)
qed

text \<open>
  Claim C6, amended. The trees depend on the data of the deployments only: two catalogs
  that hold the same deployments in the same order, in objects of whatever identity, give
  the same menu trees. The build works in place: afterwards slot \<open>i\<close> of the catalog holds
  the template built from the deployment that was there, no longer that deployment.
\<close>

theorem build_deterministic_in_place:
  "(map snd cat1 = map snd cat2 \<longrightarrow>
      map snd (build fmt (catalog_array cat1)) = map snd (build fmt (catalog_array cat2)))
   \<and> (i < length cat \<longrightarrow>
      catalog_array cat ! i = (fst (cat ! i), Deployment (snd (cat ! i)))
      \<and> snd (build fmt (catalog_array cat) ! i)
          = Template (menu_template fmt (Deployment (snd (cat ! i))))
      \<and> snd (build fmt (catalog_array cat) ! i) \<noteq> snd (catalog_array cat ! i))"
proof -
  have objs: "map snd (build fmt (catalog_array c)) = map (\<lambda>d. built fmt (0, Deployment d)) (map snd c)"
    for c
    by (simp add: build_objs catalog_array_def built_def split_def comp_def)
  have det: "map snd (build fmt (catalog_array cat1)) = map snd (build fmt (catalog_array cat2))"
    if "map snd cat1 = map snd cat2"
    using that by (simp only: objs)
  have nth: "catalog_array cat ! i = (fst (cat ! i), Deployment (snd (cat ! i)))
      \<and> snd (build fmt (catalog_array cat) ! i)
          = Template (menu_template fmt (Deployment (snd (cat ! i))))
      \<and> snd (build fmt (catalog_array cat) ! i) \<noteq> snd (catalog_array cat ! i)"
    if "i < length cat"
    using that by (simp add: build_nth catalog_array_def split_def built_def)
  from det nth show ?thesis by blast
qed

theorem build_deterministic_in_place_witness:
  "map snd (build (\<lambda>c f. f) (catalog_array
      [(0, \<lparr>uid = ''1'', name = ''proj'', url = ''proj.example.com'', created = 1000\<rparr>)]))
   = map snd (build (\<lambda>c f. f) (catalog_array
      [(7, \<lparr>uid = ''1'', name = ''proj'', url = ''proj.example.com'', created = 1000\<rparr>)]))
   \<and> catalog_array
      [(0, \<lparr>uid = ''1'', name = ''proj'', url = ''proj.example.com'', created = 1000\<rparr>)] ! 0
     = (0, Deployment \<lparr>uid = ''1'', name = ''proj'', url = ''proj.example.com'', created = 1000\<rparr>)
   \<and> snd (build (\<lambda>c f. f) (catalog_array
      [(0, \<lparr>uid = ''1'', name = ''proj'', url = ''proj.example.com'', created = 1000\<rparr>)]) ! 0)
     = Template (menu_template (\<lambda>c f. f)
         (Deployment \<lparr>uid = ''1'', name = ''proj'', url = ''proj.example.com'', created = 1000\<rparr>))
   \<and> snd (build (\<lambda>c f. f) (catalog_array
      [(0, \<lparr>uid = ''1'', name = ''proj'', url = ''proj.example.com'', created = 1000\<rparr>)]) ! 0)
     \<noteq> snd (catalog_array
      [(0, \<lparr>uid = ''1'', name = ''proj'', url = ''proj.example.com'', created = 1000\<rparr>)] ! 0)"
  using build_deterministic_in_place [of
      "[(0, \<lparr>uid = ''1'', name = ''proj'', url = ''proj.example.com'', created = 1000\<rparr>)]"
      "[(7, \<lparr>uid = ''1'', name = ''proj'', url = ''proj.example.com'', created = 1000\<rparr>)]"
      "\<lambda>c f. f" 0
      "[(0, \<lparr>uid = ''1'', name = ''proj'', url = ''proj.example.com'', created = 1000\<rparr>)]"]
  by simp

subsection \<open>Deleting a deployment\<close>

text \<open>
  Claim C5. For the \<open>Delete...\<close> closure of a deployment \<open>d\<close>: when the confirmation dialog
  returns index 0 (\<open>Yes\<close>), \<open>deleteDeployment\<close> is called exactly once, with the uid of
  \<open>d\<close>; when it returns any other index, the dialog is the only call (no call of the API
  client at all). In both cases the array \<open>deployments\<close> and the menu handed to the tray
  are as they were.
\<close>

theorem delete_click_confirmation:
  "(keepIt = 0 \<longrightarrow>
      filter is_delete_call
        (fst (run_click (DeleteClick (Some (name d)) (Some (uid d))) keepIt ok s))
        = [DeleteDeployment (Some (uid d))])
   \<and> (keepIt \<noteq> 0 \<longrightarrow>
      filter is_api_call
        (fst (run_click (DeleteClick (Some (name d)) (Some (uid d))) keepIt ok s)) = []
      \<and> fst (run_click (DeleteClick (Some (name d)) (Some (uid d))) keepIt ok s)
          = [ShowMessageBox (''Removal of '' @ name d) (Some (name d))])
   \<and> snd (run_click (DeleteClick (Some (name d)) (Some (uid d))) keepIt ok s) = s"
  by (simp add: delete_click_def truthy_num_def js_str_def)

theorem delete_click_confirmation_witness:
  "filter is_delete_call
        (fst (run_click (DeleteClick (Some (name \<lparr>uid = ''1'', name = ''proj'', url = ''proj.example.com'', created = 1000\<rparr>))
                (Some (uid \<lparr>uid = ''1'', name = ''proj'', url = ''proj.example.com'', created = 1000\<rparr>))) 0 True
           \<lparr>deployments = [], contextMenu = []\<rparr>))
        = [DeleteDeployment (Some ''1'')]
   \<and> filter is_api_call
        (fst (run_click (DeleteClick (Some (name \<lparr>uid = ''1'', name = ''proj'', url = ''proj.example.com'', created = 1000\<rparr>))
                (Some (uid \<lparr>uid = ''1'', name = ''proj'', url = ''proj.example.com'', created = 1000\<rparr>))) 1 True
           \<lparr>deployments = [], contextMenu = []\<rparr>)) = []
   \<and> snd (run_click (DeleteClick (Some (name \<lparr>uid = ''1'', name = ''proj'', url = ''proj.example.com'', created = 1000\<rparr>))
                (Some (uid \<lparr>uid = ''1'', name = ''proj'', url = ''proj.example.com'', created = 1000\<rparr>))) 1 True
           \<lparr>deployments = [], contextMenu = []\<rparr>) = \<lparr>deployments = [], contextMenu = []\<rparr>"
  using delete_click_confirmation [of 0 "\<lparr>uid = ''1'', name = ''proj'', url = ''proj.example.com'', created = 1000\<rparr>" True "\<lparr>deployments = [], contextMenu = []\<rparr>"]
    delete_click_confirmation [of 1 "\<lparr>uid = ''1'', name = ''proj'', url = ''proj.example.com'', created = 1000\<rparr>" True "\<lparr>deployments = [], contextMenu = []\<rparr>"]
  by simp

subsection \<open>The primary click in onboarding mode\<close>

text \<open>
  Claim C8 says that every primary click calls \<open>event.preventDefault()\<close>. When the window
  is visible and not focused the handler focuses it and returns at line 238, before the
  call of line 253; the other path does reach it.
\<close>

theorem tray_click_focus_path:
  "tray_click True False \<lparr>isHighlighted = True, submenuShown = False, forceClose = False\<rparr>
     = ([WinFocus], \<lparr>isHighlighted = True, submenuShown = False, forceClose = False\<rparr>)
   \<and> PreventDefault \<notin> set (fst (tray_click True False
         \<lparr>isHighlighted = True, submenuShown = False, forceClose = False\<rparr>))
   \<and> tray_click True True \<lparr>isHighlighted = True, submenuShown = False, forceClose = False\<rparr>
     = ([WinHide, TraySetHighlightMode ''never'', PreventDefault],
        \<lparr>isHighlighted = False, submenuShown = False, forceClose = False\<rparr>)
   \<and> tray_click False False \<lparr>isHighlighted = False, submenuShown = False, forceClose = False\<rparr>
     = ([WinShow, TraySetHighlightMode ''always'', PreventDefault],
        \<lparr>isHighlighted = True, submenuShown = False, forceClose = False\<rparr>)"
  by (simp add: tray_click_def toggleHighlight_def)

subsection \<open>Startup order\<close>

lemma split_after_prefix:
  assumes eq: "pre @ x # post = A @ B" and x: "P x" and A: "\<forall>y\<in>set A. \<not> P y"
  shows "\<exists>c. pre = A @ c \<and> B = c @ x # post"
proof -
  from eq consider us where "pre = A @ us" "us @ x # post = B"
    | us where "pre @ us = A" "x # post = us @ B"
    by (auto simp: append_eq_append_conv2)
  then show ?thesis
  proof cases
    case 1
    then show ?thesis by auto
  next
    case 2
    show ?thesis
    proof (cases us)
      case Nil
      with 2 show ?thesis by auto
    next
      case (Cons u us')
      with 2 have "x \<in> set A" by auto
      with A x show ?thesis by blast
    qed
  qed
qed

lemma check_updates_effects:
  "\<forall>y\<in>set (check_updates e). \<not> tray_effect y"
  by (simp add: check_updates_def)

lemma resolve_effects:
  "\<forall>y\<in>set (fst (resolve e)). \<not> tray_effect y"
  by (auto simp: resolve_def loadDeployments_def Let_def split: option.splits if_splits)

lemma logged_in_branch_effects:
  "\<forall>y\<in>set (logged_in_branch e deps). \<not> resolution_effect y"
  by (cases deps) (simp_all add: logged_in_branch_def)

lemma onboarding_branch_effects:
  "\<forall>y\<in>set onboarding_branch. \<not> resolution_effect y"
  by (simp add: onboarding_branch_def)

lemma ready_shape:
  "\<exists>rest. ready e = (check_updates e @ fst (resolve e)) @ NewTray icon_path # rest
          \<and> (\<forall>y\<in>set rest. \<not> resolution_effect y)"
proof (cases "new_tray e")
  case (Some err)
  then show ?thesis by (simp add: ready_def split_def Let_def)
next
  case None
  show ?thesis
  proof (cases "fst (snd (resolve e))")
    case True
    with None have "ready e = (check_updates e @ fst (resolve e)) @ NewTray icon_path #
        logged_in_branch e (snd (snd (resolve e)))"
      by (simp add: ready_def split_def Let_def)
    with logged_in_branch_effects show ?thesis by blast
  next
    case False
    with None have "ready e = (check_updates e @ fst (resolve e)) @ NewTray icon_path #
        onboarding_branch"
      by (simp add: ready_def split_def Let_def)
    with onboarding_branch_effects show ?thesis by blast
  qed
qed

lemma resolve_has: "ConfigHas ''now.user'' \<in> set (fst (resolve e))"
  by (simp add: resolve_def split_def Let_def split: option.splits)

lemma resolve_fetch:
  "now_user e = Some usr \<Longrightarrow> token usr = Some tok \<Longrightarrow> tok \<noteq> [] \<Longrightarrow>
     ConfigGet ''now.user'' \<in> set (fst (resolve e)) \<and> GetDeployments \<in> set (fst (resolve e))"
  by (simp add: resolve_def loadDeployments_def split: option.splits)

text \<open>
  Claim C1. In the sequence of calls of a startup run, whatever the configuration and the
  answers of the collaborators, every call on the tray (its construction, the registration
  of a handler, the context menu, the highlight mode) comes after the whole of session
  resolution: the calls of resolution form a block before it, with the read of the
  configuration and, when the session has a token, the fetch of the deployments; and no
  call of resolution comes at or after a call on the tray.
\<close>

theorem tray_after_resolution:
  assumes tr: "ready e = pre @ x # post" and x: "tray_effect x"
  shows "(\<exists>a b. pre = a @ fst (resolve e) @ b)
         \<and> (\<forall>y\<in>set (x # post). \<not> resolution_effect y)
         \<and> ConfigHas ''now.user'' \<in> set pre
         \<and> (\<forall>usr tok. now_user e = Some usr \<and> token usr = Some tok \<and> tok \<noteq> []
              \<longrightarrow> GetDeployments \<in> set pre)"
proof -
  from ready_shape obtain rest where
    shape: "ready e = (check_updates e @ fst (resolve e)) @ NewTray icon_path # rest"
    and rest: "\<forall>y\<in>set rest. \<not> resolution_effect y"
    by blast
  have quiet: "\<forall>y\<in>set (check_updates e @ fst (resolve e)). \<not> tray_effect y"
    using check_updates_effects resolve_effects by auto
  from tr shape have "pre @ x # post = (check_updates e @ fst (resolve e)) @ NewTray icon_path # rest"
    by simp
  from split_after_prefix [OF this, of tray_effect, OF x quiet]
  obtain c where pre: "pre = (check_updates e @ fst (resolve e)) @ c"
    and c: "NewTray icon_path # rest = c @ x # post"
    by blast
  have sub: "set (x # post) \<subseteq> set (NewTray icon_path # rest)"
    unfolding c by auto
  have 1: "\<exists>a b. pre = a @ fst (resolve e) @ b" using pre by auto
  have 2: "\<forall>y\<in>set (x # post). \<not> resolution_effect y"
  proof
    fix y assume "y \<in> set (x # post)"
    with sub have "y \<in> set (NewTray icon_path # rest)" by blast
    with rest show "\<not> resolution_effect y" by auto
  qed
  have 3: "ConfigHas ''now.user'' \<in> set pre" using pre resolve_has [of e] by simp
  have 4: "\<forall>usr tok. now_user e = Some usr \<and> token usr = Some tok \<and> tok \<noteq> []
              \<longrightarrow> GetDeployments \<in> set pre"
    using pre resolve_fetch [of e] by auto
  from 1 2 3 4 show ?thesis by blast
qed

theorem tray_after_resolution_witness:
  "ready \<lparr>platform = ''darwin'',
          now_user = Some \<lparr>token = Some ''t0k'', email = Some ''a@b.c''\<rparr>,
          getDeployments = Some [], new_tray = None,
          moment = (\<lambda>c f. f), menuItems = (\<lambda>a. [])\<rparr>
     = [AutoUpdater, ConfigHas ''now.user'', ConfigGet ''now.user'', Api None, GetDeployments]
       @ NewTray icon_path
       # [TrayOn ''drop-files'', MenuItems, BuildFromTemplate, TraySetContextMenu []]
   \<and> tray_effect (NewTray icon_path)
   \<and> (\<exists>a b. [AutoUpdater, ConfigHas ''now.user'', ConfigGet ''now.user'', Api None,
               GetDeployments]
        = a @ fst (resolve \<lparr>platform = ''darwin'',
              now_user = Some \<lparr>token = Some ''t0k'', email = Some ''a@b.c''\<rparr>,
              getDeployments = Some [], new_tray = None,
              moment = (\<lambda>c f. f), menuItems = (\<lambda>a. [])\<rparr>) @ b)
   \<and> filter resolution_effect
        (NewTray icon_path
         # [TrayOn ''drop-files'', MenuItems, BuildFromTemplate, TraySetContextMenu []]) = []
   \<and> ConfigHas ''now.user''
        \<in> set [AutoUpdater, ConfigHas ''now.user'', ConfigGet ''now.user'', Api None,
                 GetDeployments]
   \<and> GetDeployments
        \<in> set [AutoUpdater, ConfigHas ''now.user'', ConfigGet ''now.user'', Api None,
                 GetDeployments]"
proof -
  let ?e = "\<lparr>platform = ''darwin'',
          now_user = Some \<lparr>token = Some ''t0k'', email = Some ''a@b.c''\<rparr>,
          getDeployments = Some [], new_tray = None,
          moment = (\<lambda>c f. f), menuItems = (\<lambda>a. [])\<rparr>"
  have tr: "ready ?e
     = [AutoUpdater, ConfigHas ''now.user'', ConfigGet ''now.user'', Api None, GetDeployments]
       @ NewTray icon_path
       # [TrayOn ''drop-files'', MenuItems, BuildFromTemplate, TraySetContextMenu []]"
    by (simp add: ready_def resolve_def loadDeployments_def check_updates_def
        logged_in_branch_def fetched_array_def token_of_string_def enumerate_eq_zip)
  have x: "tray_effect (NewTray icon_path)" by simp
  from tray_after_resolution [OF tr x] tr x show ?thesis by simp
qed

subsection \<open>Session resolution\<close>

text \<open>
  Claim C2. When the configuration holds no session, and when it holds a session with a
  token and the fetch of the deployments fails, resolution leaves \<open>loggedIn\<close> false, so
  that line 110 takes the onboarding branch. No call that wires the logged-in menu (the
  drop handler, \<open>menuItems\<close>, the context menu) occurs in the run, and when the icon can be
  created the run ends with the calls that wire the onboarding window and its handlers:
  the highlight mode \<open>never\<close>, the new window loading the welcome page, the window's
  handlers of \<open>close\<close>, \<open>closed\<close>, \<open>minimize\<close> and \<open>restore\<close>, the handler of
  \<open>before-quit\<close>, and the tray's handlers of \<open>click\<close> and \<open>right-click\<close>.
  A failed fetch is logged with \<open>console.error\<close>.
\<close>

theorem onboarding_without_session:
  assumes "now_user e = None
           \<or> (\<exists>usr tok. now_user e = Some usr \<and> token usr = Some tok \<and> tok \<noteq> []
                \<and> getDeployments e = None)"
  shows "mode e = Onboarding
         \<and> filter logged_in_wiring (ready e) = []
         \<and> (new_tray e = None \<longrightarrow>
              ready e = check_updates e @ fst (resolve e) @
                [NewTray icon_path, TraySetHighlightMode ''never'', NewBrowserWindow,
                 WinLoadURL ''file://../app/pages/welcome.html'',
                 WinOn ''close'', WinOn ''closed'', WinOn ''minimize'', WinOn ''restore'',
                 AppOn ''before-quit'', TrayOn ''click'', TrayOn ''right-click''])
         \<and> (now_user e = None \<longrightarrow> fst (resolve e) = [ConfigHas ''now.user''])
         \<and> (now_user e \<noteq> None \<longrightarrow>
              fst (resolve e) = [ConfigHas ''now.user'', ConfigGet ''now.user'', Api None,
                                 GetDeployments, ConsoleError])"
proof -
  from assms have r: "fst (snd (resolve e)) = False"
    by (auto simp: resolve_def loadDeployments_def)
  have m: "mode e = Onboarding" using r by (simp add: mode_def)
  have t: "filter logged_in_wiring (fst (resolve e)) = []"
    by (auto simp: resolve_def loadDeployments_def split: option.splits)
  have u: "filter logged_in_wiring (check_updates e) = []"
    by (simp add: check_updates_def)
  have o: "filter logged_in_wiring onboarding_branch = []"
    by (simp add: onboarding_branch_def)
  have shape: "ready e = check_updates e @ fst (resolve e) @
      (case new_tray e of Some err \<Rightarrow> [NewTray icon_path, ShowError err]
       | None \<Rightarrow> NewTray icon_path # onboarding_branch)"
    using r by (simp add: ready_def split_def Let_def)
  have w: "filter logged_in_wiring (ready e) = []"
    unfolding shape using t u o by (simp split: option.splits)
  have s: "new_tray e = None \<longrightarrow>
      ready e = check_updates e @ fst (resolve e) @
                [NewTray icon_path, TraySetHighlightMode ''never'', NewBrowserWindow,
                 WinLoadURL ''file://../app/pages/welcome.html'',
                 WinOn ''close'', WinOn ''closed'', WinOn ''minimize'', WinOn ''restore'',
                 AppOn ''before-quit'', TrayOn ''click'', TrayOn ''right-click'']"
    unfolding shape by (simp add: onboarding_branch_def)
  have n: "now_user e = None \<longrightarrow> fst (resolve e) = [ConfigHas ''now.user'']"
    by (simp add: resolve_def)
  have f: "now_user e \<noteq> None \<longrightarrow>
      fst (resolve e) = [ConfigHas ''now.user'', ConfigGet ''now.user'', Api None,
                         GetDeployments, ConsoleError]"
    using assms by (auto simp: resolve_def loadDeployments_def token_of_string_def)
  from m w s n f show ?thesis by blast
qed

theorem onboarding_without_session_witness:
  "mode \<lparr>platform = ''darwin'', now_user = None, getDeployments = None, new_tray = None,
          moment = (\<lambda>c f. f), menuItems = (\<lambda>a. [])\<rparr> = Onboarding
   \<and> ready \<lparr>platform = ''darwin'', now_user = None, getDeployments = None, new_tray = None,
          moment = (\<lambda>c f. f), menuItems = (\<lambda>a. [])\<rparr>
     = [AutoUpdater, ConfigHas ''now.user'',
        NewTray icon_path, TraySetHighlightMode ''never'', NewBrowserWindow,
        WinLoadURL ''file://../app/pages/welcome.html'',
        WinOn ''close'', WinOn ''closed'', WinOn ''minimize'', WinOn ''restore'',
        AppOn ''before-quit'', TrayOn ''click'', TrayOn ''right-click'']
   \<and> filter logged_in_wiring
        (ready \<lparr>platform = ''darwin'', now_user = None, getDeployments = None,
          new_tray = None, moment = (\<lambda>c f. f), menuItems = (\<lambda>a. [])\<rparr>) = []
   \<and> mode \<lparr>platform = ''darwin'',
          now_user = Some \<lparr>token = Some ''t0k'', email = Some ''a@b.c''\<rparr>,
          getDeployments = None, new_tray = None,
          moment = (\<lambda>c f. f), menuItems = (\<lambda>a. [])\<rparr> = Onboarding
   \<and> ready \<lparr>platform = ''darwin'',
          now_user = Some \<lparr>token = Some ''t0k'', email = Some ''a@b.c''\<rparr>,
          getDeployments = None, new_tray = None,
          moment = (\<lambda>c f. f), menuItems = (\<lambda>a. [])\<rparr>
     = [AutoUpdater, ConfigHas ''now.user'', ConfigGet ''now.user'', Api None, GetDeployments,
        ConsoleError,
        NewTray icon_path, TraySetHighlightMode ''never'', NewBrowserWindow,
        WinLoadURL ''file://../app/pages/welcome.html'',
        WinOn ''close'', WinOn ''closed'', WinOn ''minimize'', WinOn ''restore'',
        AppOn ''before-quit'', TrayOn ''click'', TrayOn ''right-click'']"
proof -
  let ?e1 = "\<lparr>platform = ''darwin'', now_user = None, getDeployments = None, new_tray = None,
          moment = (\<lambda>c f. f), menuItems = (\<lambda>a. [])\<rparr>"
  let ?e2 = "\<lparr>platform = ''darwin'',
          now_user = Some \<lparr>token = Some ''t0k'', email = Some ''a@b.c''\<rparr>,
          getDeployments = None, new_tray = None,
          moment = (\<lambda>c f. f), menuItems = (\<lambda>a. [])\<rparr>"
  have h1: "now_user ?e1 = None
           \<or> (\<exists>usr tok. now_user ?e1 = Some usr \<and> token usr = Some tok \<and> tok \<noteq> []
                \<and> getDeployments ?e1 = None)"
    by simp
  have h2: "now_user ?e2 = None
           \<or> (\<exists>usr tok. now_user ?e2 = Some usr \<and> token usr = Some tok \<and> tok \<noteq> []
                \<and> getDeployments ?e2 = None)"
    by simp
  from onboarding_without_session [OF h1] onboarding_without_session [OF h2]
  show ?thesis by (simp add: check_updates_def)
qed

text \<open>
  Claim C3. When the configuration holds a session with a token and the fetch of the
  deployments succeeds, resolution sets \<open>loggedIn\<close>, so that line 110 takes the logged-in
  branch, and \<open>deployments\<close> is the fetched array, one object per deployment in the order
  of the answer. This holds for every answer, the empty list included: an empty array is
  truthy. When the icon can be created, the run ends with the wiring of the menu built from
  that array.
\<close>

theorem logged_in_when_fetch_succeeds:
  assumes "now_user e = Some usr" and "token usr = Some tok" and "tok \<noteq> []"
    and "getDeployments e = Some list"
  shows "mode e = LoggedIn
         \<and> resolve e = ([ConfigHas ''now.user'', ConfigGet ''now.user'', Api None, GetDeployments],
                        True, Array (fetched_array list))
         \<and> map snd (fetched_array list) = map Deployment list
         \<and> (new_tray e = None \<longrightarrow>
              ready e = check_updates e @ fst (resolve e) @
                [NewTray icon_path, TrayOn ''drop-files'', MenuItems, BuildFromTemplate,
                 TraySetContextMenu (menuItems e (build (moment e) (fetched_array list)))])"
proof -
  from assms have r: "resolve e = ([ConfigHas ''now.user'', ConfigGet ''now.user'', Api None,
      GetDeployments], True, Array (fetched_array list))"
    by (simp add: resolve_def loadDeployments_def token_of_string_def)
  have m: "mode e = LoggedIn" by (simp add: mode_def r)
  have c: "map snd (fetched_array list) = map Deployment list"
    by (simp add: fetched_array_def enumerate_eq_zip)
  have s: "new_tray e = None \<longrightarrow>
              ready e = check_updates e @ fst (resolve e) @
                [NewTray icon_path, TrayOn ''drop-files'', MenuItems, BuildFromTemplate,
                 TraySetContextMenu (menuItems e (build (moment e) (fetched_array list)))]"
    by (simp add: ready_def r logged_in_branch_def)
  from m r c s show ?thesis by blast
qed

theorem logged_in_when_fetch_succeeds_witness:
  "mode \<lparr>platform = ''darwin'',
          now_user = Some \<lparr>token = Some ''t0k'', email = Some ''a@b.c''\<rparr>,
          getDeployments = Some [], new_tray = None,
          moment = (\<lambda>c f. f), menuItems = (\<lambda>a. [])\<rparr> = LoggedIn
   \<and> resolve \<lparr>platform = ''darwin'',
          now_user = Some \<lparr>token = Some ''t0k'', email = Some ''a@b.c''\<rparr>,
          getDeployments = Some [], new_tray = None,
          moment = (\<lambda>c f. f), menuItems = (\<lambda>a. [])\<rparr>
     = ([ConfigHas ''now.user'', ConfigGet ''now.user'', Api None, GetDeployments], True, Array [])
   \<and> mode \<lparr>platform = ''darwin'',
          now_user = Some \<lparr>token = Some ''t0k'', email = Some ''a@b.c''\<rparr>,
          getDeployments = Some [\<lparr>uid = ''1'', name = ''proj'', url = ''proj.example.com'',
                                  created = 1000\<rparr>],
          new_tray = None, moment = (\<lambda>c f. f), menuItems = (\<lambda>a. [])\<rparr> = LoggedIn
   \<and> snd (snd (resolve \<lparr>platform = ''darwin'',
          now_user = Some \<lparr>token = Some ''t0k'', email = Some ''a@b.c''\<rparr>,
          getDeployments = Some [\<lparr>uid = ''1'', name = ''proj'', url = ''proj.example.com'',
                                  created = 1000\<rparr>],
          new_tray = None, moment = (\<lambda>c f. f), menuItems = (\<lambda>a. [])\<rparr>))
     = Array [(0, Deployment \<lparr>uid = ''1'', name = ''proj'', url = ''proj.example.com'',
                                  created = 1000\<rparr>)]"
proof -
  let ?u = "\<lparr>token = Some ''t0k'', email = Some ''a@b.c''\<rparr>"
  let ?d = "\<lparr>uid = ''1'', name = ''proj'', url = ''proj.example.com'', created = 1000\<rparr>"
  let ?e0 = "\<lparr>platform = ''darwin'', now_user = Some ?u,
          getDeployments = Some [], new_tray = None,
          moment = (\<lambda>c f. f), menuItems = (\<lambda>a. [])\<rparr>"
  let ?e1 = "\<lparr>platform = ''darwin'', now_user = Some ?u,
          getDeployments = Some [?d], new_tray = None,
          moment = (\<lambda>c f. f), menuItems = (\<lambda>a. [])\<rparr>"
  have a0: "now_user ?e0 = Some ?u" and a1: "now_user ?e1 = Some ?u"
    and b: "token ?u = Some ''t0k''" and c: "''t0k'' \<noteq> []"
    and d0: "getDeployments ?e0 = Some []" and d1: "getDeployments ?e1 = Some [?d]"
    by simp_all
  from logged_in_when_fetch_succeeds [OF a0 b c d0]
       logged_in_when_fetch_succeeds [OF a1 b c d1]
  show ?thesis by (simp add: fetched_array_def enumerate_eq_zip)
qed

subsection \<open>File drops\<close>

text \<open>
  Claim C9. A drop of more than one file performs exactly one call, the error dialog with
  the message about multiple files, and never calls \<open>share\<close>. A drop of exactly one file
  calls \<open>share\<close> exactly once, with that file, and shows no error.
\<close>

theorem fileDropped_one_or_many:
  "(length files > 1 \<longrightarrow>
      fileDropped ok files = [ShowError multiple_files_message]
      \<and> filter is_share (fileDropped ok files) = [])
   \<and> (files = [f] \<longrightarrow>
      filter is_share (fileDropped ok files) = [Share (Some f)]
      \<and> filter is_show_error (fileDropped ok files) = [])"
  by (simp add: fileDropped_def js_nth_def)

theorem fileDropped_one_or_many_witness:
  "length [''a.txt'', ''b.txt''] > 1
   \<and> fileDropped True [''a.txt'', ''b.txt''] = [ShowError multiple_files_message]
   \<and> filter is_share (fileDropped True [''a.txt'', ''b.txt'']) = []
   \<and> filter is_share (fileDropped True [''a.txt'']) = [Share (Some ''a.txt'')]
   \<and> filter is_show_error (fileDropped True [''a.txt'']) = []"
  using fileDropped_one_or_many [of "[''a.txt'', ''b.txt'']" True "''a.txt''"]
        fileDropped_one_or_many [of "[''a.txt'']" True "''a.txt''"]
  by simp

text \<open>
  Claim C10. A drop of no file passes the guard \<open>files.length > 1\<close>: no error is shown and
  \<open>share\<close> is called exactly once, with \<open>files[0]\<close>, which is \<open>undefined\<close>.
\<close>

theorem fileDropped_empty:
  "filter is_share (fileDropped ok []) = [Share None]
   \<and> filter is_show_error (fileDropped ok []) = []"
  by (simp add: fileDropped_def js_nth_def)

end
